theory Spec2Isabelle
  imports Complex_Main "HOL-Library.Word"
begin

section \<open>Floating-point values\<close>

text \<open>
  Go's \<^verbatim>\<open>float64\<close> is modelled by its IEEE 754 shape: a finite value, the two
  infinities, or NaN. Finite values are real numbers and finite arithmetic is exact, so
  rounding, overflow to infinity and underflow are not part of the model. The two zeros
  are one value; a zero divisor is taken as \<^verbatim>\<open>+0\<close>, which is the only zero a
  divisor of this package can be (\<^verbatim>\<open>float64(attempts)\<close> of the integer 0).
\<close>

datatype float64 = Finite real | PosInf | NegInf | NaN

text \<open>The conversion \<^verbatim>\<open>float64(n)\<close> of an \<^verbatim>\<open>int\<close>.\<close>

definition float64_of_int :: "int \<Rightarrow> float64" where
  "float64_of_int n = Finite (of_int n)"

text \<open>Unary minus.\<close>

fun fneg :: "float64 \<Rightarrow> float64" where
  "fneg (Finite a) = Finite (- a)"
| "fneg PosInf = NegInf"
| "fneg NegInf = PosInf"
| "fneg NaN = NaN"

text \<open>Addition: opposite infinities give NaN.\<close>

fun fadd :: "float64 \<Rightarrow> float64 \<Rightarrow> float64" where
  "fadd NaN _ = NaN"
| "fadd _ NaN = NaN"
| "fadd (Finite a) (Finite b) = Finite (a + b)"
| "fadd (Finite a) PosInf = PosInf"
| "fadd (Finite a) NegInf = NegInf"
| "fadd PosInf (Finite b) = PosInf"
| "fadd NegInf (Finite b) = NegInf"
| "fadd PosInf PosInf = PosInf"
| "fadd NegInf NegInf = NegInf"
| "fadd PosInf NegInf = NaN"
| "fadd NegInf PosInf = NaN"

definition fsub :: "float64 \<Rightarrow> float64 \<Rightarrow> float64" where
  "fsub a b = fadd a (fneg b)"

text \<open>An infinity of the given sign.\<close>

definition inf_of_sign :: "bool \<Rightarrow> float64" where
  "inf_of_sign negative = (if negative then NegInf else PosInf)"

text \<open>Multiplication: zero times an infinity is NaN.\<close>

fun fmul :: "float64 \<Rightarrow> float64 \<Rightarrow> float64" where
  "fmul NaN _ = NaN"
| "fmul _ NaN = NaN"
| "fmul (Finite a) (Finite b) = Finite (a * b)"
| "fmul (Finite a) PosInf = (if a = 0 then NaN else inf_of_sign (a < 0))"
| "fmul (Finite a) NegInf = (if a = 0 then NaN else inf_of_sign (0 < a))"
| "fmul PosInf (Finite b) = (if b = 0 then NaN else inf_of_sign (b < 0))"
| "fmul NegInf (Finite b) = (if b = 0 then NaN else inf_of_sign (0 < b))"
| "fmul PosInf PosInf = PosInf"
| "fmul NegInf NegInf = PosInf"
| "fmul PosInf NegInf = NegInf"
| "fmul NegInf PosInf = NegInf"

text \<open>
  Division. A finite non-zero value divided by zero is an infinity, zero by zero is NaN,
  a finite value divided by an infinity is zero, and an infinity by an infinity is NaN.
  No division of two \<^verbatim>\<open>float64\<close> values panics.
\<close>

fun fdiv :: "float64 \<Rightarrow> float64 \<Rightarrow> float64" where
  "fdiv NaN _ = NaN"
| "fdiv _ NaN = NaN"
| "fdiv (Finite a) (Finite b) =
     (if b = 0 then (if a = 0 then NaN else inf_of_sign (a < 0)) else Finite (a / b))"
| "fdiv (Finite a) PosInf = Finite 0"
| "fdiv (Finite a) NegInf = Finite 0"
| "fdiv PosInf (Finite b) = inf_of_sign (b < 0)"
| "fdiv NegInf (Finite b) = inf_of_sign (0 \<le> b)"
| "fdiv PosInf PosInf = NaN"
| "fdiv NegInf NegInf = NaN"
| "fdiv PosInf NegInf = NaN"
| "fdiv NegInf PosInf = NaN"

text \<open>\<^verbatim>\<open>math.Exp\<close>: \<^verbatim>\<open>Exp(+Inf) = +Inf\<close>, \<^verbatim>\<open>Exp(-Inf) = 0\<close>, \<^verbatim>\<open>Exp(NaN) = NaN\<close>.\<close>

fun math_Exp :: "float64 \<Rightarrow> float64" where
  "math_Exp (Finite a) = Finite (exp a)"
| "math_Exp PosInf = PosInf"
| "math_Exp NegInf = Finite 0"
| "math_Exp NaN = NaN"

text \<open>\<^verbatim>\<open>math.E\<close>, Euler's number.\<close>

definition math_E :: float64 where
  "math_E = Finite (exp 1)"

section \<open>Curves (curves.go)\<close>

text \<open>\<^verbatim>\<open>return L / (1 + math.E*math.Exp(-k*(x-x0)))\<close>\<close>

definition Logistic :: "float64 \<Rightarrow> float64 \<Rightarrow> float64 \<Rightarrow> float64 \<Rightarrow> float64" where
  "Logistic x k L x0 =
     fdiv L (fadd (Finite 1) (fmul math_E (math_Exp (fmul (fneg k) (fsub x x0)))))"

text \<open>\<^verbatim>\<open>return x * mul\<close>\<close>

definition Linear :: "float64 \<Rightarrow> float64 \<Rightarrow> float64" where
  "Linear x mul = fmul x mul"

text \<open>
  \<^verbatim>\<open>incline := 1 / (5 / float64(attempts))\<close>, then the closure
  \<^verbatim>\<open>func(x) { return Logistic(x, incline, limit, float64(attempts)) }\<close>.
  The parameter \<open>attempts\<close> is a Go \<^verbatim>\<open>int\<close>, given here by its value.
\<close>

definition Default :: "int \<Rightarrow> float64 \<Rightarrow> float64 \<Rightarrow> float64" where
  "Default attempts limit =
     (let incline = fdiv (Finite 1) (fdiv (Finite 5) (float64_of_int attempts))
      in (\<lambda>x. Logistic x incline limit (float64_of_int attempts)))"

section \<open>The retry engine (backoff.go)\<close>

subsection \<open>Data\<close>

text \<open>
  Modelled from the spec: \<^verbatim>\<open>ErrInvalidConfig\<close> is a package-level error value that
  \<^verbatim>\<open>Backoff\<close> returns but whose declaration is not in the two source files; the
  spec calls it \<open>InvalidConfig\<close>, the error for a missing curve or operation. A Go
  \<^verbatim>\<open>error\<close> is either that value or an error of the caller's own, of type \<open>'e\<close>.
\<close>

datatype 'e error = ErrInvalidConfig | OpError 'e

text \<open>
  What a run of the engine does to the outside, in the order it happens: it waits for a
  \<^verbatim>\<open>time.Duration\<close> (a signed 64-bit count of nanoseconds), it calls \<^verbatim>\<open>Func\<close>
  and gets a pointer (\<open>None\<close> is \<^verbatim>\<open>nil\<close>) and an error (\<open>None\<close> is
  \<^verbatim>\<open>nil\<close>), and it calls \<^verbatim>\<open>LogFailure\<close> with an error.
\<close>

datatype ('t, 'e) event =
    Slept "64 word"
  | Invoked "'t option" "'e error option"
  | Logged "'e error"

text \<open>
  \<^verbatim>\<open>Func\<close> and \<^verbatim>\<open>LogFailure\<close> are closures: they read and change the caller's
  state, of type \<open>'s\<close>, which is passed through them. \<^verbatim>\<open>Curve\<close> is a function
  of its argument alone. A function-typed field that is \<^verbatim>\<open>nil\<close> is \<open>None\<close>.
  \<^verbatim>\<open>MaxAttempts\<close> is a Go \<^verbatim>\<open>int\<close>, 64 bits wide and signed.
\<close>

record ('s, 't, 'e) Config =
  Curve :: "(float64 \<Rightarrow> float64) option"
  Func :: "('s \<Rightarrow> ('t option \<times> 'e error option) \<times> 's) option"
  MaxAttempts :: "64 word"
  LogFailure :: "('e error \<Rightarrow> 's \<Rightarrow> 's) option"
  Result :: 't

text \<open>A buffered channel: its capacity and the values waiting in it, oldest first.\<close>

record 'a chan =
  cap :: nat
  buf :: "'a list"

text \<open>
  The state a run works on: the caller's state, the events so far (oldest first), and the
  channel \<^verbatim>\<open>errorChannel\<close> of \<^verbatim>\<open>Backoff\<close>, which \<^verbatim>\<open>backoff\<close> receives as
  \<^verbatim>\<open>errors\<close> (\<open>None\<close> is the \<^verbatim>\<open>nil\<close> channel).
\<close>

record ('s, 't, 'e) state =
  ext :: 's
  trace :: "('t, 'e) event list"
  errorChannel :: "'e error chan option"

subsection \<open>Durations\<close>

text \<open>
  The conversion \<^verbatim>\<open>time.Duration(f)\<close> of a \<^verbatim>\<open>float64\<close> to a 64-bit integer
  drops the fraction (rounds toward zero). Where the value does not fit, Go leaves the
  result to the implementation; the model takes amd64's, the smallest 64-bit integer.
\<close>

definition toward_zero :: "real \<Rightarrow> int" where
  "toward_zero r = (if 0 \<le> r then \<lfloor>r\<rfloor> else \<lceil>r\<rceil>)"

definition int64_of_float64 :: "float64 \<Rightarrow> 64 word" where
  "int64_of_float64 f =
     (case f of
        Finite r \<Rightarrow>
          (if - (2 ^ 63) \<le> toward_zero r \<and> toward_zero r < 2 ^ 63 then word_of_int (toward_zero r)
           else word_of_int (- (2 ^ 63)))
      | _ \<Rightarrow> word_of_int (- (2 ^ 63)))"

text \<open>\<^verbatim>\<open>time.Second\<close>, in nanoseconds.\<close>

definition time_Second :: "64 word" where
  "time_Second = 1000000000"

subsection \<open>Effects\<close>

text \<open>
  \<^verbatim>\<open><-time.After(d)\<close>: the task waits for \<open>d\<close>, and not at all where \<open>d\<close> is
  zero or negative. The event keeps the duration that was asked for.
\<close>

definition time_After :: "64 word \<Rightarrow> ('s, 't, 'e) state \<Rightarrow> ('s, 't, 'e) state" where
  "time_After d \<sigma> = \<sigma>\<lparr>trace := trace \<sigma> @ [Slept d]\<rparr>"

text \<open>\<^verbatim>\<open>res, err = fn()\<close>\<close>

definition call_fn ::
  "('s \<Rightarrow> ('t option \<times> 'e error option) \<times> 's) \<Rightarrow> ('s, 't, 'e) state \<Rightarrow>
   ('t option \<times> 'e error option) \<times> ('s, 't, 'e) state" where
  "call_fn fn \<sigma> =
     (case fn (ext \<sigma>) of
        ((res, err), s') \<Rightarrow> ((res, err), \<sigma>\<lparr>ext := s', trace := trace \<sigma> @ [Invoked res err]\<rparr>))"

text \<open>\<^verbatim>\<open>logFailure(err)\<close>\<close>

definition call_logFailure ::
  "('e error \<Rightarrow> 's \<Rightarrow> 's) \<Rightarrow> 'e error \<Rightarrow> ('s, 't, 'e) state \<Rightarrow> ('s, 't, 'e) state" where
  "call_logFailure lf err \<sigma> = \<sigma>\<lparr>ext := lf err (ext \<sigma>), trace := trace \<sigma> @ [Logged err]\<rparr>"

text \<open>
  \<^verbatim>\<open>errors <- err\<close> on a channel that is not \<^verbatim>\<open>nil\<close>. Nothing receives from the
  channel while \<^verbatim>\<open>backoff\<close> runs, so a send to a full channel waits forever: there
  is no next state.
\<close>

definition chan_send :: "'a \<Rightarrow> 'a chan \<Rightarrow> 'a chan option" where
  "chan_send x c = (if length (buf c) < cap c then Some (c\<lparr>buf := buf c @ [x]\<rparr>) else None)"

text \<open>
  The block \<^verbatim>\<open>if err != nil { if logFailure != nil { logFailure(err) };
  if attempts != 0 && errors != nil { errors <- err } }\<close>.
\<close>

definition on_err ::
  "64 word \<Rightarrow> ('e error \<Rightarrow> 's \<Rightarrow> 's) option \<Rightarrow> 'e error option \<Rightarrow> ('s, 't, 'e) state \<Rightarrow>
   ('s, 't, 'e) state option" where
  "on_err attempts logFailure err \<sigma> =
     (case err of
        None \<Rightarrow> Some \<sigma>
      | Some e \<Rightarrow>
          (let \<sigma>' = (case logFailure of None \<Rightarrow> \<sigma> | Some lf \<Rightarrow> call_logFailure lf e \<sigma>)
           in if attempts \<noteq> 0
              then (case errorChannel \<sigma>' of
                      None \<Rightarrow> Some \<sigma>'
                    | Some c \<Rightarrow>
                        (case chan_send e c of
                           None \<Rightarrow> None
                         | Some c' \<Rightarrow> Some (\<sigma>'\<lparr>errorChannel := Some c'\<rparr>)))
              else Some \<sigma>'))"

subsection \<open>The loop of \<^verbatim>\<open>backoff\<close>\<close>

text \<open>
  The \<^verbatim>\<open>for\<close> loop with its variables \<^verbatim>\<open>res\<close> and \<^verbatim>\<open>attempt\<close>, up to the
  final \<^verbatim>\<open>result <- res\<close>, whose value is returned here (the channel \<^verbatim>\<open>result\<close>
  has room for it). With \<^verbatim>\<open>attempts == 0\<close> the loop may run forever, and a send to a
  full \<^verbatim>\<open>errors\<close> never completes: in both cases no result is sent, which is \<open>None\<close>.
  \<^verbatim>\<open>attempt++\<close> wraps around at 64 bits and \<^verbatim>\<open>attempt < attempts\<close> compares signed
  values.
\<close>

partial_function (option) backoff ::
  "(float64 \<Rightarrow> float64) \<Rightarrow> ('s \<Rightarrow> ('t option \<times> 'e error option) \<times> 's) \<Rightarrow> 64 word \<Rightarrow>
   ('e error \<Rightarrow> 's \<Rightarrow> 's) option \<Rightarrow> 't option \<Rightarrow> 64 word \<Rightarrow> ('s, 't, 'e) state \<Rightarrow>
   ('t option \<times> ('s, 't, 'e) state) option" where
  "backoff curve fn attempts logFailure res attempt \<sigma> =
     (if attempts = 0 \<or> attempt <s attempts then
        (case call_fn fn
                (time_After (int64_of_float64 (curve (float64_of_int (sint attempt))) * time_Second) \<sigma>) of
           ((res', err), \<sigma>') \<Rightarrow>
             (case on_err attempts logFailure err \<sigma>' of
                None \<Rightarrow> None
              | Some \<sigma>'' \<Rightarrow>
                  (if res' \<noteq> None then Some (res', \<sigma>'')
                   else backoff curve fn attempts logFailure res' (attempt + 1) \<sigma>'')))
      else Some (res, \<sigma>))"

subsection \<open>\<^verbatim>\<open>Backoff\<close>\<close>

text \<open>
  \<^verbatim>\<open>for len(errorChannel) > 0 { err := <-errorChannel; errorList = append(errorList, err) }\<close>
  on the values waiting in the channel; the \<^verbatim>\<open>nil\<close> channel has length 0.
\<close>

fun drain :: "'a list \<Rightarrow> 'a list \<Rightarrow> 'a list" where
  "drain [] errorList = errorList"
| "drain (err # rest) errorList = drain rest (errorList @ [err])"

text \<open>
  What a call of \<^verbatim>\<open>Backoff\<close> comes to: it returns a pointer and a slice of errors
  (\<open>None\<close> is the \<^verbatim>\<open>nil\<close> slice), or it panics in \<^verbatim>\<open>make(chan error, n)\<close>,
  which a negative \<open>n\<close> does. The memory that a channel of size \<open>n\<close> takes is not
  part of the model.
\<close>

datatype ('t, 'e) outcome = Returned "'t option" "'e error list option" | Panicked

text \<open>
  \<^verbatim>\<open>var errorChannel chan error\<close>, and
  \<^verbatim>\<open>if conf.MaxAttempts != 0 { errorChannel = make(chan error, conf.MaxAttempts) }\<close>
  for a size that is not negative.
\<close>

definition make_errorChannel :: "64 word \<Rightarrow> 'a chan option" where
  "make_errorChannel n = (if n \<noteq> 0 then Some \<lparr>cap = nat (sint n), buf = []\<rparr> else None)"

text \<open>
  \<^verbatim>\<open>Backoff\<close> starts \<^verbatim>\<open>backoff\<close> as a goroutine and at once waits for its one
  message on \<^verbatim>\<open>result\<close>; the goroutine touches nothing after sending it. So the two
  run one after the other, and a goroutine that never sends leaves \<^verbatim>\<open>Backoff\<close>
  waiting forever (\<open>None\<close>). The result comes with the caller's state and the events
  of the run.
\<close>

definition Backoff ::
  "('s, 't, 'e) Config \<Rightarrow> 's \<Rightarrow> (('t, 'e) outcome \<times> 's \<times> ('t, 'e) event list) option" where
  "Backoff conf s =
     (case (Curve conf, Func conf) of
        (Some curve, Some fn) \<Rightarrow>
          (if MaxAttempts conf \<noteq> 0 \<and> MaxAttempts conf <s 0 then Some (Panicked, s, [])
           else
             (case backoff curve fn (MaxAttempts conf) (LogFailure conf) None 0
                     \<lparr>ext = s, trace = [], errorChannel = make_errorChannel (MaxAttempts conf)\<rparr> of
                None \<Rightarrow> None
              | Some (res, \<sigma>) \<Rightarrow>
                  (if res \<noteq> None then Some (Returned res None, ext \<sigma>, trace \<sigma>)
                   else Some (Returned None
                                (Some (drain (case errorChannel \<sigma> of None \<Rightarrow> [] | Some c \<Rightarrow> buf c) [])),
                              ext \<sigma>, trace \<sigma>))))
      | _ \<Rightarrow> Some (Returned None (Some [ErrInvalidConfig]), s, []))"

section \<open>Reading a run\<close>

text \<open>The number of calls of \<^verbatim>\<open>Func\<close> among the events of a run.\<close>

fun invocations :: "('t, 'e) event list \<Rightarrow> nat" where
  "invocations [] = 0"
| "invocations (Invoked res err # tr) = Suc (invocations tr)"
| "invocations (_ # tr) = invocations tr"

text \<open>The errors that the calls of \<^verbatim>\<open>Func\<close> returned, in the order of the calls.\<close>

fun op_errors :: "('t, 'e) event list \<Rightarrow> 'e error list" where
  "op_errors [] = []"
| "op_errors (Invoked res (Some e) # tr) = e # op_errors tr"
| "op_errors (_ # tr) = op_errors tr"

text \<open>The errors that \<^verbatim>\<open>LogFailure\<close> was called with, in order.\<close>

fun logged :: "('t, 'e) event list \<Rightarrow> 'e error list" where
  "logged [] = []"
| "logged (Logged e # tr) = e # logged tr"
| "logged (_ # tr) = logged tr"

text \<open>The waits of a run, in order.\<close>

fun slept :: "('t, 'e) event list \<Rightarrow> 64 word list" where
  "slept [] = []"
| "slept (Slept d # tr) = d # slept tr"
| "slept (_ # tr) = slept tr"

text \<open>
  What one pass of the loop does to the caller's state: \<^verbatim>\<open>Func\<close> runs, and
  \<^verbatim>\<open>LogFailure\<close>, where there is one, runs on the error of \<^verbatim>\<open>Func\<close>.
\<close>

definition pass_ext ::
  "('s \<Rightarrow> ('t option \<times> 'e error option) \<times> 's) \<Rightarrow> ('e error \<Rightarrow> 's \<Rightarrow> 's) option \<Rightarrow> 's \<Rightarrow> 's" where
  "pass_ext fn logFailure s =
     (case fn s of
        ((res, err), s') \<Rightarrow>
          (case err of
             None \<Rightarrow> s'
           | Some e \<Rightarrow> (case logFailure of None \<Rightarrow> s' | Some lf \<Rightarrow> lf e s')))"


text \<open>
  The wait that the loop asks for before call number \<open>i\<close> of \<^verbatim>\<open>Func\<close>: the
  variable \<^verbatim>\<open>attempt\<close> then holds \<open>i\<close>, wrapped around at 64 bits.
\<close>

definition wait_before :: "(float64 \<Rightarrow> float64) \<Rightarrow> nat \<Rightarrow> 64 word" where
  "wait_before curve i =
     int64_of_float64 (curve (float64_of_int (sint (of_nat i :: 64 word)))) * time_Second"

text \<open>The error of one call as a list: empty for \<^verbatim>\<open>nil\<close>.\<close>

definition err_list :: "'a option \<Rightarrow> 'a list" where
  "err_list err = (case err of None \<Rightarrow> [] | Some e \<Rightarrow> [e])"


text \<open>One pass through the body of the loop, up to the test of \<^verbatim>\<open>res\<close>.\<close>

definition pass ::
  "(float64 \<Rightarrow> float64) \<Rightarrow> ('s \<Rightarrow> ('t option \<times> 'e error option) \<times> 's) \<Rightarrow> 64 word \<Rightarrow>
   ('e error \<Rightarrow> 's \<Rightarrow> 's) option \<Rightarrow> 64 word \<Rightarrow> ('s, 't, 'e) state \<Rightarrow>
   ('t option \<times> ('s, 't, 'e) state) option" where
  "pass curve fn attempts logFailure attempt \<sigma> =
     (case call_fn fn
             (time_After (int64_of_float64 (curve (float64_of_int (sint attempt))) * time_Second) \<sigma>) of
        ((res', err), \<sigma>') \<Rightarrow>
          (case on_err attempts logFailure err \<sigma>' of
             None \<Rightarrow> None
           | Some \<sigma>'' \<Rightarrow> Some (res', \<sigma>'')))"


section \<open>Example runs\<close>

text \<open>
  Operations over a caller's state that counts the calls: one that fails every time, one
  that fails twice and then returns 7, and one that fails once and then returns 7
  together with an error.
\<close>

definition failing_op :: "nat \<Rightarrow> (nat option \<times> nat error option) \<times> nat" where
  "failing_op n = ((None, Some (OpError n)), Suc n)"

definition flaky_op :: "nat \<Rightarrow> (nat option \<times> nat error option) \<times> nat" where
  "flaky_op n = ((if n < 2 then None else Some 7, if n < 2 then Some (OpError n) else None), Suc n)"

definition loud_op :: "nat \<Rightarrow> (nat option \<times> nat error option) \<times> nat" where
  "loud_op n = ((if n < 1 then None else Some 7, Some (OpError n)), Suc n)"

text \<open>A \<^verbatim>\<open>LogFailure\<close> that leaves the caller's state alone.\<close>

definition quiet_log :: "nat error \<Rightarrow> nat \<Rightarrow> nat" where
  "quiet_log e s = s"

text \<open>Three attempts at an operation that always fails (scenario A of the spec).\<close>

definition scenario_A :: "(nat, nat, nat) Config" where
  "scenario_A =
     \<lparr>Curve = Some (\<lambda>x. Linear x (Finite 1)), Func = Some failing_op, MaxAttempts = 3,
      LogFailure = None, Result = 0\<rparr>"

text \<open>No limit on the attempts, two failures and then a result (scenario B of the spec).\<close>

definition scenario_B :: "(nat, nat, nat) Config" where
  "scenario_B =
     \<lparr>Curve = Some (\<lambda>x. Linear x (Finite 1)), Func = Some flaky_op, MaxAttempts = 0,
      LogFailure = Some quiet_log, Result = 0\<rparr>"

text \<open>The events of the run of scenario B.\<close>

definition scenario_B_events :: "(nat, nat) event list" where
  "scenario_B_events =
     [Slept 0, Invoked None (Some (OpError 0)), Logged (OpError 0),
      Slept 1000000000, Invoked None (Some (OpError 1)), Logged (OpError 1),
      Slept 2000000000, Invoked (Some 7) None]"

text \<open>Five attempts at most, at an operation that returns a result with an error.\<close>

definition scenario_loud :: "(nat, nat, nat) Config" where
  "scenario_loud =
     \<lparr>Curve = Some (\<lambda>x. Linear x (Finite 1)), Func = Some loud_op, MaxAttempts = 5,
      LogFailure = Some quiet_log, Result = 0\<rparr>"

section \<open>The loop, pass by pass\<close>


lemma invocations_append: "invocations (xs @ ys) = invocations xs + invocations ys"
  by (induction xs rule: invocations.induct) simp_all

lemma op_errors_append: "op_errors (xs @ ys) = op_errors xs @ op_errors ys"
  by (induction xs rule: op_errors.induct) simp_all

lemma logged_append: "logged (xs @ ys) = logged xs @ logged ys"
  by (induction xs rule: logged.induct) simp_all

lemma slept_append: "slept (xs @ ys) = slept xs @ slept ys"
  by (induction xs rule: slept.induct) simp_all

lemma op_errors_Invoked: "op_errors [Invoked r e] = err_list e"
  by (cases e) (simp_all add: err_list_def)


lemma pass_Some:
  assumes "pass curve fn attempts lf attempt \<sigma> = Some (r, \<sigma>')"
  shows "r = fst (fst (fn (ext \<sigma>)))"
    and "ext \<sigma>' = pass_ext fn lf (ext \<sigma>)"
    and "invocations (trace \<sigma>') = Suc (invocations (trace \<sigma>))"
    and "op_errors (trace \<sigma>') = op_errors (trace \<sigma>) @ err_list (snd (fst (fn (ext \<sigma>))))"
    and "logged (trace \<sigma>') =
           logged (trace \<sigma>) @ (if lf = None then [] else err_list (snd (fst (fn (ext \<sigma>)))))"
    and "slept (trace \<sigma>') =
           slept (trace \<sigma>) @ [int64_of_float64 (curve (float64_of_int (sint attempt))) * time_Second]"
    and "errorChannel \<sigma>' =
           map_option (\<lambda>c. c\<lparr>buf := buf c @ (if attempts \<noteq> 0 then err_list (snd (fst (fn (ext \<sigma>)))) else [])\<rparr>)
             (errorChannel \<sigma>)"
  using assms
  by (auto simp: pass_def call_fn_def time_After_def on_err_def call_logFailure_def chan_send_def
      pass_ext_def err_list_def invocations_append op_errors_append logged_append slept_append Let_def
      option.map_ident split: prod.splits option.splits if_splits)















section \<open>The curves\<close>

lemma one_plus_e_nonzero: "1 + exp (1::real) \<noteq> 0"
  using exp_gt_zero [of "1::real"] by linarith

text \<open>
  C9. At its midpoint the curve has the value \<open>L / (1 + e)\<close>, whatever the steepness:
  \<open>Logistic(x0, k, L, x0) = L / (1 + e)\<close> for all real \<open>k\<close>, \<open>L\<close> and \<open>x0\<close>.
\<close>

theorem Logistic_at_midpoint:
  "Logistic (Finite x0) (Finite k) (Finite L) (Finite x0) = Finite (L / (1 + exp 1))"
  by (simp add: Logistic_def fsub_def math_E_def one_plus_e_nonzero)



text \<open>
  C8, as stated, says that \<open>Default\<close> with \<open>attempts = 0\<close> faults or is undefined.
  It is not: \<open>5 / float64(0)\<close> is \<open>+Inf\<close>, so the steepness is \<open>1 / +Inf = 0\<close>, and
  with limit 10 the curve has at 3 the value \<open>10 / (1 + e)\<close>, which is not NaN.
\<close>

theorem Default_zero_not_undefined:
  "Default 0 (Finite 10) (Finite 3) = Finite (10 / (1 + exp 1)) \<and>
   Default 0 (Finite 10) (Finite 3) \<noteq> NaN"
  by (simp add: Default_def float64_of_int_def Logistic_def fsub_def math_E_def
      inf_of_sign_def one_plus_e_nonzero)

text \<open>
  C8, amended. \<open>Default\<close> with \<open>attempts = 0\<close> does not fault: it returns the logistic
  curve of steepness 0 and midpoint 0, which for a finite limit \<open>L\<close> is the constant
  \<open>L / (1 + e)\<close> at every finite \<open>x\<close>.
\<close>

theorem Default_zero_constant:
  "Default 0 limit = (\<lambda>x. Logistic x (Finite 0) limit (Finite 0)) \<and>
   Default 0 (Finite L) (Finite x) = Finite (L / (1 + exp 1))"
  by (simp add: Default_def float64_of_int_def Logistic_def fsub_def math_E_def
      inf_of_sign_def one_plus_e_nonzero)

section \<open>A configuration that is not valid\<close>

text \<open>
  C3. If the curve or the operation of the configuration is missing, \<open>Backoff\<close> returns
  no result and the error sequence with the one error \<open>ErrInvalidConfig\<close>, the
  caller's state is as before, and the operation has not been called.
\<close>

theorem Backoff_invalid_config:
  assumes "Curve conf = None \<or> Func conf = None"
  shows "\<exists>tr. Backoff conf s = Some (Returned None (Some [ErrInvalidConfig]), s, tr) \<and>
              invocations tr = 0"
  using assms by (auto simp: Backoff_def split: option.splits)

theorem Backoff_invalid_config_witness:
  "(Curve \<lparr>Curve = None, Func = Some (\<lambda>n::nat. ((Some (7::nat), None :: nat error option), n)),
            MaxAttempts = 3, LogFailure = None, Result = 0\<rparr> = None \<or>
    Func \<lparr>Curve = None, Func = Some (\<lambda>n::nat. ((Some (7::nat), None :: nat error option), n)),
           MaxAttempts = 3, LogFailure = None, Result = 0\<rparr> = None) \<and>
   (\<exists>tr. Backoff \<lparr>Curve = None, Func = Some (\<lambda>n::nat. ((Some (7::nat), None :: nat error option), n)),
                    MaxAttempts = 3, LogFailure = None, Result = 0\<rparr> (0::nat) =
            Some (Returned None (Some [ErrInvalidConfig]), 0, tr) \<and> invocations tr = 0)"
  using Backoff_invalid_config
    [of "\<lparr>Curve = None, Func = Some (\<lambda>n::nat. ((Some (7::nat), None :: nat error option), n)),
           MaxAttempts = 3, LogFailure = None, Result = 0\<rparr>" "0::nat"]
  by simp

section \<open>Runs of \<^verbatim>\<open>Backoff\<close>\<close>

lemma drain_append: "drain xs acc = acc @ xs"
  by (induction xs arbitrary: acc) simp_all


lemma Backoff_valid:
  fixes conf :: "('s, 't, 'e) Config"
  assumes "Curve conf = Some curve" and "Func conf = Some fn"
    and "MaxAttempts conf = 0 \<or> 0 <s MaxAttempts conf"
  shows "Backoff conf s =
    (case backoff curve fn (MaxAttempts conf) (LogFailure conf) None 0
            \<lparr>ext = s, trace = [], errorChannel = make_errorChannel (MaxAttempts conf)\<rparr> of
       None \<Rightarrow> None
     | Some (res, \<sigma>) \<Rightarrow>
         (if res \<noteq> None then Some (Returned res None, ext \<sigma>, trace \<sigma>)
          else Some (Returned None (Some (case errorChannel \<sigma> of None \<Rightarrow> [] | Some c \<Rightarrow> buf c)),
                     ext \<sigma>, trace \<sigma>)))"
proof -
  have "\<not> (MaxAttempts conf \<noteq> 0 \<and> MaxAttempts conf <s 0)"
    using assms(3) by (auto simp: word_sless_alt)
  then show ?thesis
    using assms(1,2) by (auto simp: Backoff_def drain_append split: option.splits)
qed









lemma pass_keeps:
  assumes p: "pass curve fn attempts lf attempt \<sigma> = Some (r, \<sigma>')"
  shows "errorChannel \<sigma> = None \<Longrightarrow> errorChannel \<sigma>' = None"
    and "logged (trace \<sigma>) = (if lf = None then [] else op_errors (trace \<sigma>)) \<Longrightarrow>
         logged (trace \<sigma>') = (if lf = None then [] else op_errors (trace \<sigma>'))"
  using pass_Some(4,5,7) [OF p] by simp_all

lemma loop_body_pass:
  "(if attempts = 0 \<or> attempt <s attempts then
        (case call_fn fn
                (time_After (int64_of_float64 (curve (float64_of_int (sint attempt))) * time_Second) \<sigma>) of
           ((res', err), \<sigma>') \<Rightarrow>
             (case on_err attempts lf err \<sigma>' of
                None \<Rightarrow> None
              | Some \<sigma>'' \<Rightarrow>
                  (if res' \<noteq> None then Some (res', \<sigma>'')
                   else f curve fn attempts lf res' (attempt + 1) \<sigma>'')))
      else Some (res, \<sigma>)) =
   (if attempts = 0 \<or> attempt <s attempts then
        (case pass curve fn attempts lf attempt \<sigma> of
           None \<Rightarrow> None
         | Some (res', \<sigma>'') \<Rightarrow>
             (if res' \<noteq> None then Some (res', \<sigma>'')
              else f curve fn attempts lf res' (attempt + 1) \<sigma>''))
      else Some (res, \<sigma>))"
  by (simp add: pass_def split: prod.splits option.splits)

lemma loop_partial:
  fixes \<sigma> :: "('s, 't, 'e) state"
  assumes "backoff curve fn attempts lf res attempt \<sigma> = Some y"
  shows "(attempts = 0 \<longrightarrow> fst y \<noteq> None) \<and>
         (errorChannel \<sigma> = None \<longrightarrow> errorChannel (snd y) = None) \<and>
         (logged (trace \<sigma>) = (if lf = None then [] else op_errors (trace \<sigma>)) \<longrightarrow>
          logged (trace (snd y)) = (if lf = None then [] else op_errors (trace (snd y))))"
proof (rule backoff.raw_induct
    [where P = "\<lambda>curve fn attempts lf res attempt \<sigma> y.
         (attempts = 0 \<longrightarrow> fst y \<noteq> None) \<and>
         (errorChannel \<sigma> = None \<longrightarrow> errorChannel (snd y) = None) \<and>
         (logged (trace \<sigma>) = (if lf = None then [] else op_errors (trace \<sigma>)) \<longrightarrow>
          logged (trace (snd y)) = (if lf = None then [] else op_errors (trace (snd y))))",
     OF _ assms])
  fix backoff' :: "(float64 \<Rightarrow> float64) \<Rightarrow> ('s \<Rightarrow> ('t option \<times> 'e error option) \<times> 's) \<Rightarrow> 64 word \<Rightarrow>
      ('e error \<Rightarrow> 's \<Rightarrow> 's) option \<Rightarrow> 't option \<Rightarrow> 64 word \<Rightarrow> ('s, 't, 'e) state \<Rightarrow>
      ('t option \<times> ('s, 't, 'e) state) option"
    and curve fn attempts lf res attempt \<sigma> y
  assume IH: "\<And>curve fn attempts lf res attempt \<sigma> y.
      backoff' curve fn attempts lf res attempt \<sigma> = Some y \<Longrightarrow>
         (attempts = 0 \<longrightarrow> fst y \<noteq> None) \<and>
         (errorChannel \<sigma> = None \<longrightarrow> errorChannel (snd y) = None) \<and>
         (logged (trace \<sigma>) = (if lf = None then [] else op_errors (trace \<sigma>)) \<longrightarrow>
          logged (trace (snd y)) = (if lf = None then [] else op_errors (trace (snd y))))"
    and inline: "(if attempts = 0 \<or> attempt <s attempts then
        (case call_fn fn
                (time_After (int64_of_float64 (curve (float64_of_int (sint attempt))) * time_Second) \<sigma>) of
           ((res', err), \<sigma>') \<Rightarrow>
             (case on_err attempts lf err \<sigma>' of
                None \<Rightarrow> None
              | Some \<sigma>'' \<Rightarrow>
                  (if res' \<noteq> None then Some (res', \<sigma>'')
                   else backoff' curve fn attempts lf res' (attempt + 1) \<sigma>'')))
      else Some (res, \<sigma>)) = Some y"
  from inline have body:
    "(if attempts = 0 \<or> attempt <s attempts then
        (case pass curve fn attempts lf attempt \<sigma> of
           None \<Rightarrow> None
         | Some (res', \<sigma>'') \<Rightarrow>
             (if res' \<noteq> None then Some (res', \<sigma>'')
              else backoff' curve fn attempts lf res' (attempt + 1) \<sigma>''))
      else Some (res, \<sigma>)) = Some y"
    by (simp only: loop_body_pass)
  show "(attempts = 0 \<longrightarrow> fst y \<noteq> None) \<and>
         (errorChannel \<sigma> = None \<longrightarrow> errorChannel (snd y) = None) \<and>
         (logged (trace \<sigma>) = (if lf = None then [] else op_errors (trace \<sigma>)) \<longrightarrow>
          logged (trace (snd y)) = (if lf = None then [] else op_errors (trace (snd y))))"
  proof (cases "attempts = 0 \<or> attempt <s attempts")
    case False
    with body have "y = (res, \<sigma>)" by simp
    with False show ?thesis by simp
  next
    case True
    with body obtain res' \<sigma>'' where p: "pass curve fn attempts lf attempt \<sigma> = Some (res', \<sigma>'')"
      and rest: "(if res' \<noteq> None then Some (res', \<sigma>'')
                  else backoff' curve fn attempts lf res' (attempt + 1) \<sigma>'') = Some y"
      by (auto split: option.splits)
    note keep = pass_keeps [OF p]
    show ?thesis
    proof (cases "res' = None")
      case False
      with rest have "y = (res', \<sigma>'')" by simp
      with False keep show ?thesis by simp
    next
      case True
      with rest have "backoff' curve fn attempts lf res' (attempt + 1) \<sigma>'' = Some y" by simp
      from IH [OF this] keep show ?thesis by simp
    qed
  qed
qed

text \<open>
  C4. With \<open>MaxAttempts = 0\<close> (and curve and operation present), whenever \<open>Backoff\<close>
  returns, it returns a result and the \<^verbatim>\<open>nil\<close> error sequence; the errors passed to
  \<^verbatim>\<open>LogFailure\<close> are the errors of the operation where there is a \<^verbatim>\<open>LogFailure\<close>,
  and none otherwise.
\<close>

theorem Backoff_unbounded:
  fixes conf :: "('s, 't, 'e) Config"
  assumes "Curve conf = Some curve" and "Func conf = Some fn" and "MaxAttempts conf = 0"
    and "Backoff conf s = Some (out, s', tr)"
  shows "(\<exists>v. out = Returned (Some v) None) \<and>
         logged tr = (if LogFailure conf = None then [] else op_errors tr)"
proof -
  let ?\<sigma> = "\<lparr>ext = s, trace = [], errorChannel = make_errorChannel (MaxAttempts conf)\<rparr> :: ('s, 't, 'e) state"
  from assms(4) obtain r \<sigma>' where
    run: "backoff curve fn (MaxAttempts conf) (LogFailure conf) None 0 ?\<sigma> = Some (r, \<sigma>')"
    and out: "(out, s', tr) =
      (if r \<noteq> None then (Returned r None, ext \<sigma>', trace \<sigma>')
       else (Returned None (Some (case errorChannel \<sigma>' of None \<Rightarrow> [] | Some c \<Rightarrow> buf c)),
                     ext \<sigma>', trace \<sigma>'))"
    using assms(3) by (auto simp: Backoff_valid [OF assms(1,2)] split: option.splits if_splits)
  from loop_partial [OF run] assms(3)
  have r: "r \<noteq> None"
    and lg: "logged (trace \<sigma>') = (if LogFailure conf = None then [] else op_errors (trace \<sigma>'))"
    by simp_all
  from out r have "out = Returned r None" and "tr = trace \<sigma>'" by simp_all
  with r lg show ?thesis by auto
qed

section \<open>The length of a wait\<close>

text \<open>
  In every run that returns, the waits are those of \<open>wait_before\<close>, one before each
  call of \<^verbatim>\<open>Func\<close>; and where the curve's value is not negative and fits, that wait
  is the whole seconds of the value, the fraction dropped.
\<close>

lemma pass_waits:
  assumes p: "pass curve fn attempts lf attempt \<sigma> = Some (r, \<sigma>')"
    and a: "attempt = of_nat (invocations (trace \<sigma>))"
    and w: "slept (trace \<sigma>) = map (wait_before curve) [0..<invocations (trace \<sigma>)]"
  shows "attempt + 1 = of_nat (invocations (trace \<sigma>'))"
    and "slept (trace \<sigma>') = map (wait_before curve) [0..<invocations (trace \<sigma>')]"
  using pass_Some(3,6) [OF p] a w by (simp_all add: wait_before_def)

lemma loop_waits:
  fixes \<sigma> :: "('s, 't, 'e) state"
  assumes "backoff curve fn attempts lf res attempt \<sigma> = Some y"
  shows "attempt = of_nat (invocations (trace \<sigma>)) \<and>
         slept (trace \<sigma>) = map (wait_before curve) [0..<invocations (trace \<sigma>)] \<longrightarrow>
         slept (trace (snd y)) = map (wait_before curve) [0..<invocations (trace (snd y))]"
proof (rule backoff.raw_induct
    [where P = "\<lambda>curve fn attempts lf res attempt \<sigma> y.
         attempt = of_nat (invocations (trace \<sigma>)) \<and>
         slept (trace \<sigma>) = map (wait_before curve) [0..<invocations (trace \<sigma>)] \<longrightarrow>
         slept (trace (snd y)) = map (wait_before curve) [0..<invocations (trace (snd y))]",
     OF _ assms])
  fix backoff' :: "(float64 \<Rightarrow> float64) \<Rightarrow> ('s \<Rightarrow> ('t option \<times> 'e error option) \<times> 's) \<Rightarrow> 64 word \<Rightarrow>
      ('e error \<Rightarrow> 's \<Rightarrow> 's) option \<Rightarrow> 't option \<Rightarrow> 64 word \<Rightarrow> ('s, 't, 'e) state \<Rightarrow>
      ('t option \<times> ('s, 't, 'e) state) option"
    and curve fn attempts lf res attempt \<sigma> y
  assume IH: "\<And>curve fn attempts lf res attempt \<sigma> y.
      backoff' curve fn attempts lf res attempt \<sigma> = Some y \<Longrightarrow>
         attempt = of_nat (invocations (trace \<sigma>)) \<and>
         slept (trace \<sigma>) = map (wait_before curve) [0..<invocations (trace \<sigma>)] \<longrightarrow>
         slept (trace (snd y)) = map (wait_before curve) [0..<invocations (trace (snd y))]"
    and inline: "(if attempts = 0 \<or> attempt <s attempts then
        (case call_fn fn
                (time_After (int64_of_float64 (curve (float64_of_int (sint attempt))) * time_Second) \<sigma>) of
           ((res', err), \<sigma>') \<Rightarrow>
             (case on_err attempts lf err \<sigma>' of
                None \<Rightarrow> None
              | Some \<sigma>'' \<Rightarrow>
                  (if res' \<noteq> None then Some (res', \<sigma>'')
                   else backoff' curve fn attempts lf res' (attempt + 1) \<sigma>'')))
      else Some (res, \<sigma>)) = Some y"
  from inline have body:
    "(if attempts = 0 \<or> attempt <s attempts then
        (case pass curve fn attempts lf attempt \<sigma> of
           None \<Rightarrow> None
         | Some (res', \<sigma>'') \<Rightarrow>
             (if res' \<noteq> None then Some (res', \<sigma>'')
              else backoff' curve fn attempts lf res' (attempt + 1) \<sigma>''))
      else Some (res, \<sigma>)) = Some y"
    by (simp only: loop_body_pass)
  show "attempt = of_nat (invocations (trace \<sigma>)) \<and>
         slept (trace \<sigma>) = map (wait_before curve) [0..<invocations (trace \<sigma>)] \<longrightarrow>
         slept (trace (snd y)) = map (wait_before curve) [0..<invocations (trace (snd y))]"
  proof (intro impI, elim conjE)
    assume a: "attempt = of_nat (invocations (trace \<sigma>))"
      and w: "slept (trace \<sigma>) = map (wait_before curve) [0..<invocations (trace \<sigma>)]"
    show "slept (trace (snd y)) = map (wait_before curve) [0..<invocations (trace (snd y))]"
    proof (cases "attempts = 0 \<or> attempt <s attempts")
      case False
      with body have "y = (res, \<sigma>)" by simp
      with w show ?thesis by simp
    next
      case True
      with body obtain res' \<sigma>'' where p: "pass curve fn attempts lf attempt \<sigma> = Some (res', \<sigma>'')"
        and rest: "(if res' \<noteq> None then Some (res', \<sigma>'')
                    else backoff' curve fn attempts lf res' (attempt + 1) \<sigma>'') = Some y"
        by (auto split: option.splits)
      note nx = pass_waits [OF p a w]
      show ?thesis
      proof (cases "res' = None")
        case False
        with rest have "y = (res', \<sigma>'')" by simp
        with nx(2) show ?thesis by simp
      next
        case True
        with rest have "backoff' curve fn attempts lf res' (attempt + 1) \<sigma>'' = Some y" by simp
        from IH [OF this] nx show ?thesis by simp
      qed
    qed
  qed
qed

lemma Backoff_waits:
  fixes conf :: "('s, 't, 'e) Config"
  assumes "Backoff conf s = Some (out, s', tr)"
  shows "slept tr = map (wait_before (the (Curve conf))) [0..<invocations tr]"
proof (cases "Curve conf = None \<or> Func conf = None \<or>
              (MaxAttempts conf \<noteq> 0 \<and> MaxAttempts conf <s 0)")
  case True
  with assms have "tr = []"
    by (auto simp: Backoff_def split: option.splits)
  then show ?thesis by simp
next
  case False
  then obtain curve fn where c: "Curve conf = Some curve" and f: "Func conf = Some fn"
    by auto
  let ?\<sigma> = "\<lparr>ext = s, trace = [], errorChannel = make_errorChannel (MaxAttempts conf)\<rparr> :: ('s, 't, 'e) state"
  from assms False c f obtain y where
    run: "backoff curve fn (MaxAttempts conf) (LogFailure conf) None 0 ?\<sigma> = Some y"
    and tr: "tr = trace (snd y)"
    by (auto simp: Backoff_def split: option.splits if_splits)
  from loop_waits [OF run] show ?thesis
    by (simp add: tr c)
qed

lemma wait_before_whole_seconds:
  assumes "curve (Finite (real i)) = Finite r" and "0 \<le> r" and "r < 2 ^ 63" and "i < 2 ^ 63"
  shows "wait_before curve i = word_of_int \<lfloor>r\<rfloor> * 1000000000"
proof -
  have "sint (of_nat i :: 64 word) = signed_take_bit 63 (int i)"
    by (simp add: signed_of_nat)
  also have "\<dots> = int i"
    using assms(4) by (intro signed_take_bit_int_eq_self) auto
  finally have i: "sint (of_nat i :: 64 word) = int i" .
  have "\<lfloor>r\<rfloor> < 2 ^ 63"
    using assms(3) by (simp add: floor_less_iff)
  moreover have "0 \<le> \<lfloor>r\<rfloor>"
    using assms(2) by simp
  ultimately show ?thesis
    using assms(1,2) by (simp add: wait_before_def i float64_of_int_def int64_of_float64_def
        toward_zero_def time_Second_def)
qed

text \<open>
  C5 says that the wait before an attempt is the curve's value in seconds. The code
  converts the curve's value to an integer before it multiplies by \<^verbatim>\<open>time.Second\<close>,
  which drops the fraction: with a curve that is always half a second and an operation
  that fails, the one wait of the run is 0 nanoseconds, not 500000000.
\<close>

theorem Backoff_half_second_wait:
  "Backoff \<lparr>Curve = Some (\<lambda>x. Finite (1 / 2)),
            Func = Some (\<lambda>n::nat. ((None :: nat option, Some (OpError n)), Suc n)),
            MaxAttempts = 1, LogFailure = None, Result = 0\<rparr> 0 =
   Some (Returned None (Some [OpError 0]), 1, [Slept 0, Invoked None (Some (OpError 0))])"
  by (simp add: Backoff_def make_errorChannel_def backoff.simps call_fn_def time_After_def on_err_def chan_send_def
      int64_of_float64_def toward_zero_def float64_of_int_def Let_def word_sless_alt)

section \<open>The theorems at the example runs\<close>

lemmas run_defs = Backoff_def make_errorChannel_def backoff.simps call_fn_def time_After_def on_err_def
  call_logFailure_def chan_send_def int64_of_float64_def toward_zero_def float64_of_int_def Let_def
  word_sless_alt Linear_def time_Second_def

lemma scenario_A_run:
  "Backoff scenario_A 0 =
     Some (Returned None (Some [OpError 0, OpError 1, OpError 2]), 3,
           [Slept 0, Invoked None (Some (OpError 0)),
            Slept 1000000000, Invoked None (Some (OpError 1)),
            Slept 2000000000, Invoked None (Some (OpError 2))])"
  by (simp add: scenario_A_def failing_op_def run_defs)

lemma scenario_B_run:
  "Backoff scenario_B 0 = Some (Returned (Some 7) None, 3, scenario_B_events)"
  by (simp add: scenario_B_def scenario_B_events_def flaky_op_def quiet_log_def run_defs)

lemma scenario_loud_run:
  "Backoff scenario_loud 0 =
     Some (Returned (Some 7) None, 2,
           [Slept 0, Invoked None (Some (OpError 0)), Logged (OpError 0),
            Slept 1000000000, Invoked (Some 7) (Some (OpError 1)), Logged (OpError 1)])"
  by (simp add: scenario_loud_def loud_op_def quiet_log_def run_defs)



theorem Backoff_unbounded_witness:
  "Curve scenario_B = Some (\<lambda>x. Linear x (Finite 1)) \<and> Func scenario_B = Some flaky_op \<and>
   MaxAttempts scenario_B = 0 \<and>
   Backoff scenario_B 0 = Some (Returned (Some 7) None, 3, scenario_B_events) \<and>
   (\<exists>v. (Returned (Some 7) None :: (nat, nat) outcome) = Returned (Some v) None) \<and>
   logged scenario_B_events =
     (if LogFailure scenario_B = None then [] else op_errors scenario_B_events)"
proof -
  have h1: "Curve scenario_B = Some (\<lambda>x. Linear x (Finite 1))"
    and h2: "Func scenario_B = Some flaky_op"
    and h3: "MaxAttempts scenario_B = 0"
    by (simp_all add: scenario_B_def)
  note h4 = scenario_B_run
  from Backoff_unbounded [OF h1 h2 h3 h4] h1 h2 h3 h4 show ?thesis
    by (intro conjI) simp_all
qed



end
